theory Spec2Isabelle
  imports Main
begin

section \<open>JavaScript values\<close>

text \<open>
  The layout receives the result of a page query: parsed JSON, reached through a
  prop that may also be absent. Values are therefore JSON trees extended with
  \<open>undefined\<close> and \<open>NaN\<close>. The layout does no arithmetic: of a number it can only
  observe whether it is zero and how it prints. \<open>Num s\<close> is therefore the number
  that \<open>Number::toString\<close> prints as \<open>s\<close>, such as \<open>Num ''42''\<close>, \<open>Num ''0.5''\<close>,
  \<open>Num ''1e+21''\<close> or \<open>Num ''-Infinity''\<close>; both zeros print as \<open>0\<close> and are \<open>Num ''0''\<close>.
  An object is a plain object (one that inherits from \<open>Object.prototype\<close>), given
  as the list of its own entries; looking a key up takes its first entry.
\<close>

datatype jsval =
    Undefined
  | Null
  | Bool bool
  | NaN
  | Num string
  | Str string
  | Arr "jsval list"
  | Obj "(string \<times> jsval) list"

text \<open>\<open>ToBoolean\<close>, which \<open>!data\<close>, \<open>a || b\<close> and \<open>c ? x : y\<close> apply to their first operand.\<close>

fun truthy :: "jsval \<Rightarrow> bool" where
  "truthy Undefined = False"
| "truthy Null = False"
| "truthy (Bool b) = b"
| "truthy NaN = False"
| "truthy (Num s) = (s \<noteq> ''0'')"
| "truthy (Str s) = (s \<noteq> [])"
| "truthy (Arr xs) = True"
| "truthy (Obj kvs) = True"

text \<open>\<open>v == null\<close>: loose equality with \<open>null\<close> holds of \<open>null\<close> and \<open>undefined\<close> only.\<close>

fun eq_null :: "jsval \<Rightarrow> bool" where
  "eq_null Undefined = True"
| "eq_null Null = True"
| "eq_null v = False"

text \<open>\<open>a || b\<close>: the first operand when it is truthy, the second otherwise.\<close>

definition or_js :: "jsval \<Rightarrow> jsval \<Rightarrow> jsval" where
  "or_js a b = (if truthy a then a else b)"

subsection \<open>Errors and property reads\<close>

text \<open>
  A thrown exception is the left summand of the result. A \<open>TypeError\<close> has one of
  two causes here: \<open>NullRead k\<close>, reading property \<open>k\<close> of \<open>null\<close> or \<open>undefined\<close>,
  and \<open>NotPrimitive\<close>, converting to a string an object that has no callable
  \<open>toString\<close>. \<open>Error m\<close> is any other exception, with its message.
\<close>

datatype cause = NullRead string | NotPrimitive

datatype error = TypeError cause | Error string

definition bind :: "error + 'a \<Rightarrow> ('a \<Rightarrow> error + 'b) \<Rightarrow> error + 'b" where
  "bind r f = (case r of Inl e \<Rightarrow> Inl e | Inr v \<Rightarrow> f v)"

text \<open>
  \<open>v.k\<close>, and the read that a destructuring pattern \<open>{ k } = v\<close> performs. Reading
  from \<open>null\<close> or \<open>undefined\<close> throws; an object yields the entry or \<open>undefined\<close>.
  Primitives and arrays yield \<open>undefined\<close>: the layout reads only the names of
  its query, none of which is a property of a built-in prototype.
\<close>

fun getprop :: "jsval \<Rightarrow> string \<Rightarrow> error + jsval" where
  "getprop Undefined k = Inl (TypeError (NullRead k))"
| "getprop Null k = Inl (TypeError (NullRead k))"
| "getprop (Obj kvs) k = Inr (case map_of kvs k of None \<Rightarrow> Undefined | Some v \<Rightarrow> v)"
| "getprop v k = Inr Undefined"

subsection \<open>String conversion\<close>

text \<open>
  \<open>ToString\<close>, which a template literal applies to each substitution as it
  evaluates it. An array joins the strings of its elements with commas, printing
  \<open>null\<close> and \<open>undefined\<close> elements as the empty string, and throws what the
  conversion of an element throws. A plain object prints as \<open>[object Object]\<close>
  through the \<open>toString\<close> it inherits. An own entry \<open>toString\<close> hides the
  inherited method, and no value of a query result is callable: the conversion
  then turns to \<open>valueOf\<close>, which yields no primitive either, and throws a
  \<open>TypeError\<close>.
\<close>

fun join :: "string \<Rightarrow> string list \<Rightarrow> string" where
  "join sep [] = []"
| "join sep [s] = s"
| "join sep (s # t # ss) = s @ sep @ join sep (t # ss)"

fun ToString :: "jsval \<Rightarrow> error + string"
  and element_strings :: "jsval list \<Rightarrow> error + string list" where
  "ToString Undefined = Inr ''undefined''"
| "ToString Null = Inr ''null''"
| "ToString (Bool b) = Inr (if b then ''true'' else ''false'')"
| "ToString NaN = Inr ''NaN''"
| "ToString (Num s) = Inr s"
| "ToString (Str s) = Inr s"
| "ToString (Arr xs) = bind (element_strings xs) (\<lambda>ss. Inr (join '','' ss))"
| "ToString (Obj kvs) =
     (if map_of kvs ''toString'' = None then Inr ''[object Object]''
      else Inl (TypeError NotPrimitive))"
| "element_strings [] = Inr []"
| "element_strings (x # xs) =
     bind (if eq_null x then Inr [] else ToString x) (\<lambda>s.
     bind (element_strings xs) (\<lambda>ss. Inr (s # ss)))"

section \<open>The article layout\<close>

text \<open>
  The elements the layout returns. The arguments of each constructor are the
  props in the order the source writes them:
  \<^item> \<open>SEO title description\<close>
  \<^item> \<open>Section className children\<close>, the host element \<open>section\<close>
  \<^item> \<open>TopSection location title slug langSwitcher dbSwitcher navigate toc\<close>
  \<^item> \<open>MDXRenderer children\<close>
  \<^item> \<open>PageBottom editDocsPath pageUrl\<close>
  \<^item> \<open>Fragment children\<close>, the enclosing \<open><>...</>\<close>
  The types \<open>'loc\<close> of the router's location and \<open>'nav\<close> of its navigate function
  are left open: the layout only hands them on.
\<close>

datatype ('nav, 'loc) element =
    SEO jsval jsval
  | Section string "('nav, 'loc) element list"
  | TopSection 'loc jsval jsval jsval jsval 'nav jsval
  | MDXRenderer jsval
  | PageBottom string jsval
  | Fragment "('nav, 'loc) element list"

text \<open>
  The props besides \<open>data\<close>, collected by \<open>...props\<close>: the router's \<open>location\<close>, and
  whatever else the caller passes.
\<close>

record ('loc, 'r) props =
  location :: 'loc
  others :: 'r

text \<open>
  The destructuring of \<open>data\<close> (lines 17 to 28), reading the properties in the
  order of the pattern. Its result is the tuple of the variables it binds:
  \<open>slug, modSlug, title, metaTitle, metaDescription, langSwitcher, dbSwitcher,
  toc, body, parent, tableOfContents, docsLocation\<close>.
\<close>

type_synonym bindings =
  "jsval \<times> jsval \<times> jsval \<times> jsval \<times> jsval \<times> jsval \<times> jsval \<times> jsval \<times> jsval \<times> jsval \<times> jsval \<times> jsval"

definition destructure :: "jsval \<Rightarrow> error + bindings" where
  "destructure data =
     bind (getprop data ''mdx'') (\<lambda>mdx.
     bind (getprop mdx ''fields'') (\<lambda>fields.
     bind (getprop fields ''slug'') (\<lambda>slug.
     bind (getprop fields ''modSlug'') (\<lambda>modSlug.
     bind (getprop mdx ''frontmatter'') (\<lambda>frontmatter.
     bind (getprop frontmatter ''title'') (\<lambda>title.
     bind (getprop frontmatter ''metaTitle'') (\<lambda>metaTitle.
     bind (getprop frontmatter ''metaDescription'') (\<lambda>metaDescription.
     bind (getprop frontmatter ''langSwitcher'') (\<lambda>langSwitcher.
     bind (getprop frontmatter ''dbSwitcher'') (\<lambda>dbSwitcher.
     bind (getprop frontmatter ''toc'') (\<lambda>toc.
     bind (getprop mdx ''body'') (\<lambda>body.
     bind (getprop mdx ''parent'') (\<lambda>parent.
     bind (getprop mdx ''tableOfContents'') (\<lambda>tableOfContents.
     bind (getprop data ''site'') (\<lambda>site.
     bind (getprop site ''siteMetadata'') (\<lambda>siteMetadata.
     bind (getprop siteMetadata ''docsLocation'') (\<lambda>docsLocation.
     Inr (slug, modSlug, title, metaTitle, metaDescription, langSwitcher, dbSwitcher,
          toc, body, parent, tableOfContents, docsLocation))))))))))))))))))"

text \<open>
  The component. \<open>useNavigate\<close> is the outcome of the router hook it calls on
  line 30, a function of the router context and not of the props: the navigate
  function, or the exception the hook throws. \<open>None\<close> is the \<open>null\<close> of line 15.
  Of the expressions in the returned elements only the template literal of
  line 47 can throw: it converts \<open>docsLocation\<close>, then reads
  \<open>parent.relativePath\<close>, then converts that.
\<close>

definition ArticleLayout ::
  "error + 'nav \<Rightarrow> jsval \<Rightarrow> ('loc, 'r) props \<Rightarrow> error + ('nav, 'loc) element option" where
  "ArticleLayout useNavigate data props =
     (if \<not> truthy data then Inr None
      else
        bind (destructure data)
          (\<lambda>(slug, modSlug, title, metaTitle, metaDescription, langSwitcher, dbSwitcher,
             toc, body, parent, tableOfContents, docsLocation).
        bind useNavigate (\<lambda>navigate.
        bind (ToString docsLocation) (\<lambda>head.
        bind (getprop parent ''relativePath'') (\<lambda>relativePath.
        bind (ToString relativePath) (\<lambda>tail.
        Inr (Some (Fragment
          [SEO (or_js metaTitle title) (or_js metaDescription title),
           Section ''top-section''
             [TopSection (location props) title modSlug langSwitcher dbSwitcher navigate
                (if truthy toc \<or> eq_null toc then tableOfContents else Arr [])],
           MDXRenderer body,
           PageBottom (head @ ''/'' @ tail) slug]))))))))"


subsection \<open>Member expressions and presence\<close>

text \<open>
  \<open>read data [k1, ..., kn]\<close> evaluates the member expression \<open>data.k1. ... .kn\<close>.
  A field is present when the expression evaluates to a value other than \<open>null\<close>
  and \<open>undefined\<close>. \<open>all_present\<close> names the six objects the layout reads from,
  which is the shape the page query gives \<open>data\<close> when the node, its file and the
  site metadata exist. The interface \<open>ArticleQueryData\<close> that types the prop is
  declared in \<open>../interfaces/Article.interface\<close>; the layout itself checks
  nothing but \<open>data\<close>.
\<close>

fun read :: "jsval \<Rightarrow> string list \<Rightarrow> error + jsval" where
  "read v [] = Inr v"
| "read v (k # ks) = bind (getprop v k) (\<lambda>w. read w ks)"

definition present :: "jsval \<Rightarrow> string list \<Rightarrow> bool" where
  "present data path = (case read data path of Inl e \<Rightarrow> False | Inr v \<Rightarrow> \<not> eq_null v)"

definition all_present :: "jsval \<Rightarrow> bool" where
  "all_present data \<longleftrightarrow>
     present data [''mdx''] \<and> present data [''mdx'', ''fields''] \<and>
     present data [''mdx'', ''frontmatter''] \<and> present data [''mdx'', ''parent''] \<and>
     present data [''site''] \<and> present data [''site'', ''siteMetadata'']"

text \<open>
  A field converts when it can be read and \<open>ToString\<close> of its value returns.
  \<open>renderable\<close> data has the six objects and a \<open>docsLocation\<close> and a
  \<open>relativePath\<close> that convert, as strings and all other primitives do.
\<close>

definition converts :: "jsval \<Rightarrow> string list \<Rightarrow> bool" where
  "converts data path =
     (case read data path of
        Inl e \<Rightarrow> False
      | Inr v \<Rightarrow> (case ToString v of Inl e \<Rightarrow> False | Inr s \<Rightarrow> True))"

definition renderable :: "jsval \<Rightarrow> bool" where
  "renderable data \<longleftrightarrow>
     all_present data \<and>
     converts data [''site'', ''siteMetadata'', ''docsLocation''] \<and>
     converts data [''mdx'', ''parent'', ''relativePath'']"

text \<open>The value of \<open>v.k\<close> where the read does not throw (and \<open>undefined\<close> where it does).\<close>

definition at :: "jsval \<Rightarrow> string \<Rightarrow> jsval" where
  "at v k = (case getprop v k of Inl e \<Rightarrow> Undefined | Inr w \<Rightarrow> w)"

section \<open>The page query\<close>

text \<open>
  The GraphQL document exported as \<open>query\<close> (lines 54 to 83), as its syntax tree:
  the declared variables with their types, and the selection set. A field carries
  its arguments and its own selection set; \<open>... on File { ... }\<close> is an inline
  fragment.
\<close>

datatype gqlvalue = Variable string | ObjectValue "(string \<times> gqlvalue) list"

datatype selection =
    Field string "(string \<times> gqlvalue) list" "selection list"
  | InlineFragment string "selection list"

record operation =
  variables :: "(string \<times> string) list"
  selections :: "selection list"

definition query :: operation where
  "query = \<lparr>
     variables = [(''id'', ''String!'')],
     selections =
       [Field ''site'' []
          [Field ''siteMetadata'' []
             [Field ''docsLocation'' [] []]],
        Field ''mdx'' [(''fields'', ObjectValue [(''id'', ObjectValue [(''eq'', Variable ''id'')])])]
          [Field ''fields'' []
             [Field ''slug'' [] [],
              Field ''modSlug'' [] []],
           Field ''body'' [] [],
           Field ''parent'' []
             [InlineFragment ''File''
                [Field ''relativePath'' [] []]],
           Field ''tableOfContents'' [] [],
           Field ''frontmatter'' []
             [Field ''title'' [] [],
              Field ''metaTitle'' [] [],
              Field ''metaDescription'' [] [],
              Field ''langSwitcher'' [] [],
              Field ''dbSwitcher'' [] [],
              Field ''toc'' [] []]]]\<rparr>"

text \<open>
  The fields a selection set requests, each with its own selection set; the
  fields of an inline fragment count as fields of the enclosing set.
\<close>

fun fields_of :: "selection list \<Rightarrow> (string \<times> selection list) list" where
  "fields_of [] = []"
| "fields_of (Field k args sub # ss) = (k, sub) # fields_of ss"
| "fields_of (InlineFragment t sub # ss) = fields_of sub @ fields_of ss"

text \<open>\<open>selects sels path\<close>: the selection set requests the field at \<open>path\<close>.\<close>

fun selects :: "selection list \<Rightarrow> string list \<Rightarrow> bool" where
  "selects sels [] = True"
| "selects sels (k # ks) =
     (case map_of (fields_of sels) k of None \<Rightarrow> False | Some sub \<Rightarrow> selects sub ks)"

text \<open>The arguments of the field \<open>k\<close> of a selection set.\<close>

fun arguments_of :: "selection list \<Rightarrow> string \<Rightarrow> (string \<times> gqlvalue) list option" where
  "arguments_of [] k = None"
| "arguments_of (Field f args sub # ss) k = (if f = k then Some args else arguments_of ss k)"
| "arguments_of (InlineFragment t sub # ss) k = arguments_of ss k"

text \<open>
  An input object flattened to its leaves, each with the path of keys leading to
  it: the filter \<open>{ fields: { id: { eq: $id } } }\<close> has the one leaf \<open>$id\<close>, at
  \<open>fields.id.eq\<close>.
\<close>

fun conditions :: "string list \<Rightarrow> gqlvalue \<Rightarrow> (string list \<times> gqlvalue) list" where
  "conditions path (Variable x) = [(path, Variable x)]"
| "conditions path (ObjectValue kvs) = concat (map (\<lambda>(k, v). conditions (path @ [k]) v) kvs)"

text \<open>
  The part of a value that a selection set requests: of an object, the entries
  of the requested fields, each cut down by the field's own selection set; of a
  list, its items cut down alike. A field with no selection set of its own is
  requested whole.
\<close>

fun project :: "selection list \<Rightarrow> jsval \<Rightarrow> jsval"
  and project_entries :: "selection list \<Rightarrow> (string \<times> jsval) list \<Rightarrow> (string \<times> jsval) list"
  and project_items :: "selection list \<Rightarrow> jsval list \<Rightarrow> jsval list" where
  "project sels (Obj kvs) = (if sels = [] then Obj kvs else Obj (project_entries sels kvs))"
| "project sels (Arr xs) = (if sels = [] then Arr xs else Arr (project_items sels xs))"
| "project sels Undefined = Undefined"
| "project sels Null = Null"
| "project sels (Bool b) = Bool b"
| "project sels NaN = NaN"
| "project sels (Num n) = Num n"
| "project sels (Str s) = Str s"
| "project_entries sels [] = []"
| "project_entries sels ((k, v) # kvs) =
     (case map_of (fields_of sels) k of
        None \<Rightarrow> project_entries sels kvs
      | Some sub \<Rightarrow> (k, project sub v) # project_entries sels kvs)"
| "project_items sels [] = []"
| "project_items sels (x # xs) = project sels x # project_items sels xs"

section \<open>An example page\<close>

text \<open>
  The query result of the guide on SQL views, whose front matter sets \<open>title\<close>,
  \<open>metaTitle\<close>, \<open>metaDescription\<close> and \<open>dbSwitcher\<close>; the fields it leaves out
  come back as \<open>null\<close>. The example takes the front matter's \<open>toc\<close> as a parameter.
\<close>

definition sql_views :: "jsval \<Rightarrow> jsval" where
  "sql_views toc = Obj
     [(''site'', Obj [(''siteMetadata'', Obj [(''docsLocation'', Str ''https://example.org/docs/content'')])]),
      (''mdx'', Obj
         [(''fields'', Obj [(''slug'', Str ''/guides/sql-views-postgres''),
                           (''modSlug'', Str ''/guides/sql-views'')]),
          (''body'', Str ''function _createMdxContent() {}''),
          (''parent'', Obj [(''relativePath'', Str ''guides/sql-views-postgres.mdx'')]),
          (''tableOfContents'', Obj [(''items'', Arr [Obj [(''url'', Str ''#overview''),
                                                        (''title'', Str ''Overview'')]])]),
          (''frontmatter'', Obj
             [(''title'', Str ''SQL views''),
              (''metaTitle'', Str ''Create SQL views with Prisma and PostgreSQL''),
              (''metaDescription'', Str ''Learn how to create SQL views''),
              (''langSwitcher'', Null),
              (''dbSwitcher'', Arr [Str ''postgres'']),
              (''toc'', toc)])])]"

text \<open>The same result with the file node missing: \<open>parent\<close> is \<open>null\<close>.\<close>

definition orphan_page :: jsval where
  "orphan_page = Obj
     [(''mdx'', Obj [(''fields'', Obj []), (''frontmatter'', Obj []), (''parent'', Null)]),
      (''site'', Obj [(''siteMetadata'', Obj [])])]"

text \<open>
  A page whose site metadata gives \<open>docsLocation\<close> as an object with an entry
  \<open>toString\<close>, and a page with no entries at all.
\<close>

definition odd_site_page :: jsval where
  "odd_site_page = Obj
     [(''mdx'', Obj [(''fields'', Obj []), (''frontmatter'', Obj []),
                     (''parent'', Obj [(''relativePath'', Str ''a.mdx'')])]),
      (''site'', Obj [(''siteMetadata'',
         Obj [(''docsLocation'', Obj [(''toString'', Num ''1'')])])])]"

definition empty_page :: jsval where
  "empty_page = Obj []"

section \<open>Auxiliary facts\<close>

lemma bind_simps [simp]:
  "bind (Inl e) f = Inl e"
  "bind (Inr v) f = f v"
  by (simp_all add: bind_def)

lemma getprop_if:
  "getprop v k = (if eq_null v then Inl (TypeError (NullRead k)) else Inr (at v k))"
  by (cases v) (simp_all add: at_def)

lemma bind_eq_Inr: "bind r f = Inr b \<longleftrightarrow> (\<exists>v. r = Inr v \<and> f v = Inr b)"
  by (cases r) simp_all

lemma getprop_eq_Inr: "getprop v k = Inr w \<longleftrightarrow> \<not> eq_null v \<and> w = at v k"
  by (simp add: getprop_if) auto

lemma truthy_not_null: "truthy v \<Longrightarrow> \<not> eq_null v"
  by (cases v) simp_all

lemma at_present_truthy: "\<not> eq_null (at v k) \<Longrightarrow> truthy v"
  by (cases v) (simp_all add: at_def)

lemma present1: "present data [k] \<longleftrightarrow> \<not> eq_null data \<and> \<not> eq_null (at data k)"
  by (simp add: present_def getprop_if)

lemma present2: "present data [k, l] \<longleftrightarrow> present data [k] \<and> \<not> eq_null (at (at data k) l)"
  by (simp add: present_def getprop_if)

lemma all_present_iff:
  "all_present data \<longleftrightarrow>
     truthy data \<and> \<not> eq_null (at data ''mdx'') \<and>
     \<not> eq_null (at (at data ''mdx'') ''fields'') \<and>
     \<not> eq_null (at (at data ''mdx'') ''frontmatter'') \<and>
     \<not> eq_null (at (at data ''mdx'') ''parent'') \<and>
     \<not> eq_null (at data ''site'') \<and>
     \<not> eq_null (at (at data ''site'') ''siteMetadata'')"
  unfolding all_present_def present1 present2
  using at_present_truthy truthy_not_null by blast

text \<open>What renderable data gives the layout: the six objects and the two strings.\<close>

lemma renderable_iff:
  "renderable data \<longleftrightarrow>
     all_present data \<and>
     (\<exists>head. ToString (at (at (at data ''site'') ''siteMetadata'') ''docsLocation'') = Inr head) \<and>
     (\<exists>tail. ToString (at (at (at data ''mdx'') ''parent'') ''relativePath'') = Inr tail)"
proof (cases "all_present data")
  case True
  then show ?thesis
    by (auto simp: renderable_def converts_def all_present_iff getprop_if truthy_not_null
        split: sum.splits)
next
  case False
  then show ?thesis by (simp add: renderable_def)
qed

text \<open>The destructuring succeeds exactly when the five objects it opens are present.\<close>

lemma destructure_eq_Inr:
  "destructure data = Inr b \<longleftrightarrow>
     present data [''mdx''] \<and> present data [''mdx'', ''fields''] \<and>
     present data [''mdx'', ''frontmatter''] \<and> present data [''site''] \<and>
     present data [''site'', ''siteMetadata''] \<and>
     b = (at (at (at data ''mdx'') ''fields'') ''slug'',
          at (at (at data ''mdx'') ''fields'') ''modSlug'',
          at (at (at data ''mdx'') ''frontmatter'') ''title'',
          at (at (at data ''mdx'') ''frontmatter'') ''metaTitle'',
          at (at (at data ''mdx'') ''frontmatter'') ''metaDescription'',
          at (at (at data ''mdx'') ''frontmatter'') ''langSwitcher'',
          at (at (at data ''mdx'') ''frontmatter'') ''dbSwitcher'',
          at (at (at data ''mdx'') ''frontmatter'') ''toc'',
          at (at data ''mdx'') ''body'',
          at (at data ''mdx'') ''parent'',
          at (at data ''mdx'') ''tableOfContents'',
          at (at (at data ''site'') ''siteMetadata'') ''docsLocation'')"
  unfolding destructure_def present1 present2 bind_eq_Inr getprop_eq_Inr
  by auto

text \<open>The component, with every read resolved.\<close>

lemma ArticleLayout_at:
  "ArticleLayout useNavigate data props =
     (if \<not> truthy data then Inr None
      else if eq_null (at data ''mdx'') then Inl (TypeError (NullRead ''fields''))
      else if eq_null (at (at data ''mdx'') ''fields'') then Inl (TypeError (NullRead ''slug''))
      else if eq_null (at (at data ''mdx'') ''frontmatter'') then Inl (TypeError (NullRead ''title''))
      else if eq_null (at data ''site'') then Inl (TypeError (NullRead ''siteMetadata''))
      else if eq_null (at (at data ''site'') ''siteMetadata'')
        then Inl (TypeError (NullRead ''docsLocation''))
      else bind useNavigate (\<lambda>navigate.
        bind (ToString (at (at (at data ''site'') ''siteMetadata'') ''docsLocation'')) (\<lambda>head.
        if eq_null (at (at data ''mdx'') ''parent'') then Inl (TypeError (NullRead ''relativePath''))
        else bind (ToString (at (at (at data ''mdx'') ''parent'') ''relativePath'')) (\<lambda>tail.
        Inr (Some (Fragment
          [SEO (or_js (at (at (at data ''mdx'') ''frontmatter'') ''metaTitle'')
                      (at (at (at data ''mdx'') ''frontmatter'') ''title''))
               (or_js (at (at (at data ''mdx'') ''frontmatter'') ''metaDescription'')
                      (at (at (at data ''mdx'') ''frontmatter'') ''title'')),
           Section ''top-section''
             [TopSection (location props)
                (at (at (at data ''mdx'') ''frontmatter'') ''title'')
                (at (at (at data ''mdx'') ''fields'') ''modSlug'')
                (at (at (at data ''mdx'') ''frontmatter'') ''langSwitcher'')
                (at (at (at data ''mdx'') ''frontmatter'') ''dbSwitcher'')
                navigate
                (if truthy (at (at (at data ''mdx'') ''frontmatter'') ''toc'') \<or>
                    eq_null (at (at (at data ''mdx'') ''frontmatter'') ''toc'')
                 then at (at data ''mdx'') ''tableOfContents'' else Arr [])],
           MDXRenderer (at (at data ''mdx'') ''body''),
           PageBottom (head @ ''/'' @ tail)
                      (at (at (at data ''mdx'') ''fields'') ''slug'')]))))))"
  unfolding ArticleLayout_def destructure_def getprop_if
  by (simp add: truthy_not_null)

text \<open>
  The render of renderable data, for a hook that returns: the fragment of four
  children, with the two strings of the template literal.
\<close>

lemma ArticleLayout_renderable:
  assumes "renderable data"
  shows "\<exists>head tail.
     ToString (at (at (at data ''site'') ''siteMetadata'') ''docsLocation'') = Inr head \<and>
     ToString (at (at (at data ''mdx'') ''parent'') ''relativePath'') = Inr tail \<and>
     ArticleLayout (Inr navigate) data props =
       Inr (Some (Fragment
          [SEO (or_js (at (at (at data ''mdx'') ''frontmatter'') ''metaTitle'')
                      (at (at (at data ''mdx'') ''frontmatter'') ''title''))
               (or_js (at (at (at data ''mdx'') ''frontmatter'') ''metaDescription'')
                      (at (at (at data ''mdx'') ''frontmatter'') ''title'')),
           Section ''top-section''
             [TopSection (location props)
                (at (at (at data ''mdx'') ''frontmatter'') ''title'')
                (at (at (at data ''mdx'') ''fields'') ''modSlug'')
                (at (at (at data ''mdx'') ''frontmatter'') ''langSwitcher'')
                (at (at (at data ''mdx'') ''frontmatter'') ''dbSwitcher'')
                navigate
                (if truthy (at (at (at data ''mdx'') ''frontmatter'') ''toc'') \<or>
                    eq_null (at (at (at data ''mdx'') ''frontmatter'') ''toc'')
                 then at (at data ''mdx'') ''tableOfContents'' else Arr [])],
           MDXRenderer (at (at data ''mdx'') ''body''),
           PageBottom (head @ ''/'' @ tail)
                      (at (at (at data ''mdx'') ''fields'') ''slug'')]))"
proof -
  from assms obtain head tail where
    p: "all_present data" and
    h: "ToString (at (at (at data ''site'') ''siteMetadata'') ''docsLocation'') = Inr head" and
    t: "ToString (at (at (at data ''mdx'') ''parent'') ''relativePath'') = Inr tail"
    unfolding renderable_iff by blast
  from p h t show ?thesis
    by (simp add: ArticleLayout_at all_present_iff)
qed

text \<open>The reads of a page whose six objects are present.\<close>

lemma read2:
  assumes "all_present data"
  shows "read data [''mdx'', k] = Inr (at (at data ''mdx'') k)"
  using assms by (simp add: all_present_iff getprop_if truthy_not_null)

lemma read3:
  assumes "all_present data"
  shows "read data [''mdx'', ''fields'', k] = Inr (at (at (at data ''mdx'') ''fields'') k)"
    and "read data [''mdx'', ''frontmatter'', k] = Inr (at (at (at data ''mdx'') ''frontmatter'') k)"
    and "read data [''mdx'', ''parent'', k] = Inr (at (at (at data ''mdx'') ''parent'') k)"
    and "read data [''site'', ''siteMetadata'', k] = Inr (at (at (at data ''site'') ''siteMetadata'') k)"
  using assms by (simp_all add: all_present_iff getprop_if truthy_not_null)

text \<open>The same render, in terms of the member expressions that the layout reads.\<close>

lemma ArticleLayout_reads:
  assumes "renderable data"
  shows "\<exists>title metaTitle metaDescription modSlug langSwitcher dbSwitcher toc tableOfContents
          body docsLocation relativePath slug head tail.
     read data [''mdx'', ''frontmatter'', ''title''] = Inr title \<and>
     read data [''mdx'', ''frontmatter'', ''metaTitle''] = Inr metaTitle \<and>
     read data [''mdx'', ''frontmatter'', ''metaDescription''] = Inr metaDescription \<and>
     read data [''mdx'', ''fields'', ''modSlug''] = Inr modSlug \<and>
     read data [''mdx'', ''frontmatter'', ''langSwitcher''] = Inr langSwitcher \<and>
     read data [''mdx'', ''frontmatter'', ''dbSwitcher''] = Inr dbSwitcher \<and>
     read data [''mdx'', ''frontmatter'', ''toc''] = Inr toc \<and>
     read data [''mdx'', ''tableOfContents''] = Inr tableOfContents \<and>
     read data [''mdx'', ''body''] = Inr body \<and>
     read data [''site'', ''siteMetadata'', ''docsLocation''] = Inr docsLocation \<and>
     read data [''mdx'', ''parent'', ''relativePath''] = Inr relativePath \<and>
     read data [''mdx'', ''fields'', ''slug''] = Inr slug \<and>
     ToString docsLocation = Inr head \<and>
     ToString relativePath = Inr tail \<and>
     ArticleLayout (Inr navigate) data props =
       Inr (Some (Fragment
         [SEO (or_js metaTitle title) (or_js metaDescription title),
          Section ''top-section''
            [TopSection (location props) title modSlug langSwitcher dbSwitcher navigate
               (if truthy toc \<or> eq_null toc then tableOfContents else Arr [])],
          MDXRenderer body,
          PageBottom (head @ ''/'' @ tail) slug]))"
proof -
  from assms have p: "all_present data" by (simp add: renderable_def)
  from ArticleLayout_renderable [OF assms, of navigate props] show ?thesis
    by (simp add: read2 [OF p] read3 [OF p] del: read.simps)
qed

text \<open>Reads from the requested part of a value.\<close>

lemma map_of_project_entries:
  "map_of (project_entries sels kvs) k =
     (case map_of (fields_of sels) k of
        None \<Rightarrow> None
      | Some sub \<Rightarrow> map_option (project sub) (map_of kvs k))"
  by (induction kvs) (auto split: option.splits)

lemma project_eq_null [simp]: "eq_null (project sels v) = eq_null v"
  by (cases v) simp_all

lemma project_truthy [simp]: "truthy (project sels v) = truthy v"
  by (cases v) simp_all

lemma project_leaf [simp]: "project [] v = v"
  by (cases v) simp_all

lemma at_project:
  "at (project sels v) k =
     (case map_of (fields_of sels) k of
        None \<Rightarrow> if sels = [] then at v k else Undefined
      | Some sub \<Rightarrow> project sub (at v k))"
  by (cases v) (auto simp: at_def map_of_project_entries split: option.splits)

text \<open>The example pages.\<close>

lemma sql_views_present: "truthy (sql_views toc) \<and> all_present (sql_views toc)"
  by (simp add: sql_views_def all_present_def present_def)

lemma sql_views_renderable: "renderable (sql_views toc)"
  by (simp add: sql_views_def renderable_def converts_def all_present_def present_def)

lemma orphan_page_present:
  "present orphan_page [''mdx''] \<and> present orphan_page [''mdx'', ''fields''] \<and>
   present orphan_page [''mdx'', ''frontmatter''] \<and> present orphan_page [''site''] \<and>
   present orphan_page [''site'', ''siteMetadata''] \<and> \<not> present orphan_page [''mdx'', ''parent'']"
  by (simp add: orphan_page_def present_def)

section \<open>The claims\<close>

text \<open>
  Claim C1. Where the layout renders, the \<open>toc\<close> prop of \<open>TopSection\<close> is
  \<open>data.mdx.tableOfContents\<close> whenever \<open>frontmatter.toc\<close> is truthy or is \<open>null\<close> or
  \<open>undefined\<close>, and the empty array \<open>[]\<close> when \<open>frontmatter.toc\<close> is any other falsy
  value, such as \<open>false\<close>; and only then, the table of contents not being an empty
  array itself.
\<close>

theorem toc_fallback:
  assumes "truthy data" and "renderable data"
  shows "\<exists>toc tableOfContents passed seo l t s ls ds body bottom.
     read data [''mdx'', ''frontmatter'', ''toc''] = Inr toc \<and>
     read data [''mdx'', ''tableOfContents''] = Inr tableOfContents \<and>
     ArticleLayout (Inr navigate) data props =
       Inr (Some (Fragment
         [seo, Section ''top-section'' [TopSection l t s ls ds navigate passed], body, bottom])) \<and>
     (truthy toc \<or> eq_null toc \<longrightarrow> passed = tableOfContents) \<and>
     (\<not> truthy toc \<and> \<not> eq_null toc \<longrightarrow> passed = Arr []) \<and>
     (tableOfContents \<noteq> Arr [] \<longrightarrow> (passed = Arr [] \<longleftrightarrow> \<not> truthy toc \<and> \<not> eq_null toc))"
  using ArticleLayout_reads [OF assms(2), of navigate props]
  by (elim exE conjE) (simp del: read.simps)

theorem toc_fallback_witness:
  "truthy (sql_views (Bool False)) \<and> renderable (sql_views (Bool False)) \<and>
   (\<exists>seo l t s ls ds body bottom.
      ArticleLayout (Inr ''navigate'') (sql_views (Bool False)) \<lparr>location = ''/guides/sql-views'', others = ()\<rparr> =
        Inr (Some (Fragment
          [seo, Section ''top-section'' [TopSection l t s ls ds ''navigate'' (Arr [])], body, bottom])))"
proof -
  have p: "truthy (sql_views (Bool False))" "renderable (sql_views (Bool False))"
    using sql_views_present sql_views_renderable by simp_all
  have r: "read (sql_views (Bool False)) [''mdx'', ''frontmatter'', ''toc''] = Inr (Bool False)"
    by (simp add: sql_views_def)
  from toc_fallback [OF p, of "''navigate''" "\<lparr>location = ''/guides/sql-views'', others = ()\<rparr>"]
  show ?thesis using p r by auto
qed

text \<open>
  Claim C2, as the code has it. For truthy \<open>data\<close> whose six objects are present
  and whose \<open>docsLocation\<close> and \<open>relativePath\<close> convert to strings, and with a
  router hook that returns, the layout returns a fragment of four children in
  this order: the \<open>SEO\<close> element, the section \<open>top-section\<close> wrapping \<open>TopSection\<close>
  (which carries the table of contents), \<open>MDXRenderer\<close> around the body, and
  \<open>PageBottom\<close> with the path of the page's source. Every prop is the value read
  from the query result.
\<close>

theorem renders_article:
  assumes "truthy data" and "renderable data"
  shows "\<exists>title metaTitle metaDescription modSlug langSwitcher dbSwitcher toc tableOfContents
          body docsLocation relativePath slug head tail.
     read data [''mdx'', ''frontmatter'', ''title''] = Inr title \<and>
     read data [''mdx'', ''frontmatter'', ''metaTitle''] = Inr metaTitle \<and>
     read data [''mdx'', ''frontmatter'', ''metaDescription''] = Inr metaDescription \<and>
     read data [''mdx'', ''fields'', ''modSlug''] = Inr modSlug \<and>
     read data [''mdx'', ''frontmatter'', ''langSwitcher''] = Inr langSwitcher \<and>
     read data [''mdx'', ''frontmatter'', ''dbSwitcher''] = Inr dbSwitcher \<and>
     read data [''mdx'', ''frontmatter'', ''toc''] = Inr toc \<and>
     read data [''mdx'', ''tableOfContents''] = Inr tableOfContents \<and>
     read data [''mdx'', ''body''] = Inr body \<and>
     read data [''site'', ''siteMetadata'', ''docsLocation''] = Inr docsLocation \<and>
     read data [''mdx'', ''parent'', ''relativePath''] = Inr relativePath \<and>
     read data [''mdx'', ''fields'', ''slug''] = Inr slug \<and>
     ToString docsLocation = Inr head \<and>
     ToString relativePath = Inr tail \<and>
     ArticleLayout (Inr navigate) data props =
       Inr (Some (Fragment
         [SEO (or_js metaTitle title) (or_js metaDescription title),
          Section ''top-section''
            [TopSection (location props) title modSlug langSwitcher dbSwitcher navigate
               (if truthy toc \<or> eq_null toc then tableOfContents else Arr [])],
          MDXRenderer body,
          PageBottom (head @ ''/'' @ tail) slug]))"
  using assms(2) by (rule ArticleLayout_reads)

theorem renders_article_witness:
  "truthy (sql_views Null) \<and> renderable (sql_views Null) \<and>
   ArticleLayout (Inr ''navigate'') (sql_views Null) \<lparr>location = ''/guides/sql-views'', others = ()\<rparr> =
     Inr (Some (Fragment
       [SEO (Str ''Create SQL views with Prisma and PostgreSQL'') (Str ''Learn how to create SQL views''),
        Section ''top-section''
          [TopSection ''/guides/sql-views'' (Str ''SQL views'') (Str ''/guides/sql-views'') Null
             (Arr [Str ''postgres'']) ''navigate''
             (Obj [(''items'', Arr [Obj [(''url'', Str ''#overview''), (''title'', Str ''Overview'')]])])],
        MDXRenderer (Str ''function _createMdxContent() {}''),
        PageBottom ''https://example.org/docs/content/guides/sql-views-postgres.mdx''
          (Str ''/guides/sql-views-postgres'')]))"
proof -
  have p: "truthy (sql_views Null)" "renderable (sql_views Null)"
    using sql_views_present sql_views_renderable by simp_all
  from renders_article [OF p, of "''navigate''" "\<lparr>location = ''/guides/sql-views'', others = ()\<rparr>"]
  show ?thesis using p by (auto simp: sql_views_def or_js_def)
qed

text \<open>
  The claim as first stated has the layout render for every \<open>data\<close> that is not
  \<open>null\<close>. An object with no entries is truthy and ends in the \<open>TypeError\<close> of the
  destructuring; on the example page a hook that throws ends the render with
  its exception; and a \<open>docsLocation\<close> that does not convert to a string ends
  it with the \<open>TypeError\<close> of the template literal.
\<close>

theorem non_null_data_may_throw:
  "truthy empty_page \<and>
   ArticleLayout (Inr ''navigate'') empty_page \<lparr>location = ''/guides/sql-views'', others = ()\<rparr> =
     Inl (TypeError (NullRead ''fields'')) \<and>
   truthy (sql_views Null) \<and>
   ArticleLayout (Inl (Error ''no router'') :: error + string) (sql_views Null)
       \<lparr>location = ''/guides/sql-views'', others = ()\<rparr> =
     Inl (Error ''no router'') \<and>
   truthy odd_site_page \<and>
   ArticleLayout (Inr ''navigate'') odd_site_page \<lparr>location = ''/guides/sql-views'', others = ()\<rparr> =
     Inl (TypeError NotPrimitive)"
  by (simp add: ArticleLayout_def destructure_def empty_page_def sql_views_def odd_site_page_def)

text \<open>
  Claim C3. Where \<open>site.siteMetadata.docsLocation\<close> and \<open>parent.relativePath\<close> are
  strings, \<open>editDocsPath\<close> of \<open>PageBottom\<close> is the first, the character \<open>/\<close> and
  the second, concatenated, and \<open>pageUrl\<close> is \<open>mdx.fields.slug\<close>.
\<close>

theorem edit_path:
  assumes "truthy data" and "all_present data"
    and "read data [''site'', ''siteMetadata'', ''docsLocation''] = Inr (Str docsLocation)"
    and "read data [''mdx'', ''parent'', ''relativePath''] = Inr (Str relativePath)"
  shows "\<exists>slug seo top body.
     read data [''mdx'', ''fields'', ''slug''] = Inr slug \<and>
     ArticleLayout (Inr navigate) data props =
       Inr (Some (Fragment
         [seo, top, body, PageBottom (docsLocation @ [CHR ''/''] @ relativePath) slug]))"
proof -
  from assms(3,4) have
    d: "at (at (at data ''site'') ''siteMetadata'') ''docsLocation'' = Str docsLocation" and
    r: "at (at (at data ''mdx'') ''parent'') ''relativePath'' = Str relativePath"
    by (simp_all add: read3 [OF assms(2)] del: read.simps)
  from assms(2) d r show ?thesis
    by (simp add: ArticleLayout_at all_present_iff read3 [OF assms(2)] del: read.simps)
qed

theorem edit_path_witness:
  "truthy (sql_views Null) \<and> all_present (sql_views Null) \<and>
   read (sql_views Null) [''site'', ''siteMetadata'', ''docsLocation''] =
     Inr (Str ''https://example.org/docs/content'') \<and>
   read (sql_views Null) [''mdx'', ''parent'', ''relativePath''] =
     Inr (Str ''guides/sql-views-postgres.mdx'') \<and>
   (\<exists>seo top body.
      ArticleLayout (Inr ''navigate'') (sql_views Null) \<lparr>location = ''/guides/sql-views'', others = ()\<rparr> =
       Inr (Some (Fragment
         [seo, top, body,
          PageBottom ''https://example.org/docs/content/guides/sql-views-postgres.mdx''
            (Str ''/guides/sql-views-postgres'')])))"
proof -
  have p: "truthy (sql_views Null)" "all_present (sql_views Null)"
    using sql_views_present by simp_all
  have d: "read (sql_views Null) [''site'', ''siteMetadata'', ''docsLocation''] =
     Inr (Str ''https://example.org/docs/content'')"
    by (simp add: sql_views_def)
  have r: "read (sql_views Null) [''mdx'', ''parent'', ''relativePath''] =
     Inr (Str ''guides/sql-views-postgres.mdx'')"
    by (simp add: sql_views_def)
  have s: "read (sql_views Null) [''mdx'', ''fields'', ''slug''] = Inr (Str ''/guides/sql-views-postgres'')"
    by (simp add: sql_views_def)
  from edit_path [OF p d r, of "''navigate''" "\<lparr>location = ''/guides/sql-views'', others = ()\<rparr>"]
  show ?thesis using p d r s by (auto simp del: read.simps)
qed

text \<open>
  Claim C4. Where the layout renders, the title of \<open>SEO\<close> is \<open>frontmatter.metaTitle\<close>
  when that is truthy and \<open>frontmatter.title\<close> otherwise, and the description is
  \<open>frontmatter.metaDescription\<close> when that is truthy and \<open>frontmatter.title\<close>
  otherwise.
\<close>

theorem seo_tags:
  assumes "truthy data" and "renderable data"
  shows "\<exists>title metaTitle metaDescription top body bottom.
     read data [''mdx'', ''frontmatter'', ''title''] = Inr title \<and>
     read data [''mdx'', ''frontmatter'', ''metaTitle''] = Inr metaTitle \<and>
     read data [''mdx'', ''frontmatter'', ''metaDescription''] = Inr metaDescription \<and>
     ArticleLayout (Inr navigate) data props =
       Inr (Some (Fragment
         [SEO (if truthy metaTitle then metaTitle else title)
              (if truthy metaDescription then metaDescription else title),
          top, body, bottom]))"
  using ArticleLayout_reads [OF assms(2), of navigate props]
  by (elim exE conjE) (simp add: or_js_def del: read.simps)

theorem seo_tags_witness:
  "truthy (sql_views Null) \<and> renderable (sql_views Null) \<and>
   (\<exists>top body bottom.
      ArticleLayout (Inr ''navigate'') (sql_views Null) \<lparr>location = ''/guides/sql-views'', others = ()\<rparr> =
       Inr (Some (Fragment
         [SEO (Str ''Create SQL views with Prisma and PostgreSQL'') (Str ''Learn how to create SQL views''),
          top, body, bottom])))"
proof -
  have p: "truthy (sql_views Null)" "renderable (sql_views Null)"
    using sql_views_present sql_views_renderable by simp_all
  from seo_tags [OF p, of "''navigate''" "\<lparr>location = ''/guides/sql-views'', others = ()\<rparr>"]
  show ?thesis using p by (auto simp: sql_views_def)
qed

text \<open>
  Claim C5. For falsy \<open>data\<close> (\<open>null\<close>, \<open>undefined\<close>, and every other falsy value)
  the layout returns \<open>null\<close>: it renders no element and throws nothing, whatever
  the router hook would have done, since it returns before calling it.
\<close>

theorem falsy_data_renders_nothing:
  assumes "\<not> truthy data"
  shows "ArticleLayout useNavigate data props = Inr None"
  using assms by (simp add: ArticleLayout_def)

theorem falsy_data_renders_nothing_witness:
  "\<not> truthy Null \<and>
   ArticleLayout (Inl (Error ''no router'') :: error + string) Null
     \<lparr>location = ''/guides/sql-views'', others = ()\<rparr> = Inr None \<and>
   ArticleLayout (Inr ''navigate'') Undefined \<lparr>location = ''/guides/sql-views'', others = ()\<rparr> = Inr None"
  using falsy_data_renders_nothing [of Null "Inl (Error ''no router'') :: error + string"
      "\<lparr>location = ''/guides/sql-views'', others = ()\<rparr>"]
    falsy_data_renders_nothing [of Undefined "Inr ''navigate''"
      "\<lparr>location = ''/guides/sql-views'', others = ()\<rparr>"]
  by simp

text \<open>
  Claim C6, as the code has it. The guard covers \<open>data\<close> alone. The destructuring
  does not fail exactly when \<open>mdx\<close>, \<open>mdx.fields\<close>, \<open>mdx.frontmatter\<close>, \<open>site\<close> and
  \<open>site.siteMetadata\<close> are present; \<open>mdx.parent\<close> is bound, not opened, and is no
  condition of it. Some truthy data with a \<open>null\<close> \<open>mdx\<close>, and some with a \<open>null\<close>
  \<open>site\<close>, end in the \<open>TypeError\<close> of the destructuring, whatever the router hook
  would have done.
\<close>

theorem guard_covers_data_only:
  "((\<exists>b. destructure data = Inr b) \<longleftrightarrow>
      present data [''mdx''] \<and> present data [''mdx'', ''fields''] \<and>
      present data [''mdx'', ''frontmatter''] \<and> present data [''site''] \<and>
      present data [''site'', ''siteMetadata'']) \<and>
   (\<exists>d. truthy d \<and> read d [''mdx''] = Inr Null \<and>
        destructure d = Inl (TypeError (NullRead ''fields'')) \<and>
        ArticleLayout useNavigate d props = Inl (TypeError (NullRead ''fields''))) \<and>
   (\<exists>d. truthy d \<and> read d [''site''] = Inr Null \<and>
        destructure d = Inl (TypeError (NullRead ''siteMetadata'')) \<and>
        ArticleLayout useNavigate d props = Inl (TypeError (NullRead ''siteMetadata'')))"
proof (intro conjI)
  show "(\<exists>b. destructure data = Inr b) \<longleftrightarrow>
      present data [''mdx''] \<and> present data [''mdx'', ''fields''] \<and>
      present data [''mdx'', ''frontmatter''] \<and> present data [''site''] \<and>
      present data [''site'', ''siteMetadata'']"
    by (simp add: destructure_eq_Inr)
next
  let ?d = "Obj [(''mdx'', Null)]"
  have "truthy ?d \<and> read ?d [''mdx''] = Inr Null \<and>
        destructure ?d = Inl (TypeError (NullRead ''fields'')) \<and>
        ArticleLayout useNavigate ?d props = Inl (TypeError (NullRead ''fields''))"
    by (simp add: ArticleLayout_def destructure_def)
  then show "\<exists>d. truthy d \<and> read d [''mdx''] = Inr Null \<and>
        destructure d = Inl (TypeError (NullRead ''fields'')) \<and>
        ArticleLayout useNavigate d props = Inl (TypeError (NullRead ''fields''))"
    by blast
next
  let ?d = "Obj [(''mdx'', Obj [(''fields'', Obj []), (''frontmatter'', Obj [])]), (''site'', Null)]"
  have "truthy ?d \<and> read ?d [''site''] = Inr Null \<and>
        destructure ?d = Inl (TypeError (NullRead ''siteMetadata'')) \<and>
        ArticleLayout useNavigate ?d props = Inl (TypeError (NullRead ''siteMetadata''))"
    by (simp add: ArticleLayout_def destructure_def)
  then show "\<exists>d. truthy d \<and> read d [''site''] = Inr Null \<and>
        destructure d = Inl (TypeError (NullRead ''siteMetadata'')) \<and>
        ArticleLayout useNavigate d props = Inl (TypeError (NullRead ''siteMetadata''))"
    by blast
qed

theorem guard_covers_data_only_witness:
  "truthy orphan_page \<and>
   present orphan_page [''mdx''] \<and> present orphan_page [''mdx'', ''fields''] \<and>
   present orphan_page [''mdx'', ''frontmatter''] \<and> present orphan_page [''site''] \<and>
   present orphan_page [''site'', ''siteMetadata''] \<and>
   (\<exists>b. destructure orphan_page = Inr b)"
  using guard_covers_data_only [of orphan_page "Inr ''navigate''"
      "\<lparr>location = ''/guides/sql-views'', others = ()\<rparr>"]
    orphan_page_present
  by (simp add: orphan_page_def)

text \<open>
  The claim as first stated lists \<open>mdx.parent\<close> among the conditions of the
  destructuring. On a page without a file node the destructuring succeeds, binding
  \<open>parent\<close> to \<open>null\<close>.
\<close>

theorem destructuring_without_parent:
  "truthy orphan_page \<and>
   destructure orphan_page =
     Inr (Undefined, Undefined, Undefined, Undefined, Undefined, Undefined, Undefined, Undefined,
          Undefined, Null, Undefined, Undefined) \<and>
   read orphan_page [''mdx'', ''parent''] = Inr Null \<and>
   \<not> all_present orphan_page"
  by (simp add: orphan_page_def destructure_def all_present_def present_def)

text \<open>
  Claim C8. The query requests every field the layout reads: the layout returns
  the same on the requested part of \<open>data\<close> as on \<open>data\<close>, and the selection set
  has each of the twelve paths. The query declares the one variable \<open>$id\<close>, a
  \<open>String!\<close>, and the only argument of its \<open>mdx\<close> field is the filter
  \<open>fields.id.eq\<close> with \<open>$id\<close> as operand.
\<close>

theorem query_requests_fields:
  "ArticleLayout useNavigate (project (selections query) data) props =
     ArticleLayout useNavigate data props \<and>
   list_all (selects (selections query))
     [[''mdx'', ''fields'', ''slug''], [''mdx'', ''fields'', ''modSlug''], [''mdx'', ''body''],
      [''mdx'', ''parent'', ''relativePath''], [''mdx'', ''tableOfContents''],
      [''mdx'', ''frontmatter'', ''title''], [''mdx'', ''frontmatter'', ''metaTitle''],
      [''mdx'', ''frontmatter'', ''metaDescription''], [''mdx'', ''frontmatter'', ''langSwitcher''],
      [''mdx'', ''frontmatter'', ''dbSwitcher''], [''mdx'', ''frontmatter'', ''toc''],
      [''site'', ''siteMetadata'', ''docsLocation'']] \<and>
   variables query = [(''id'', ''String!'')] \<and>
   map_option (\<lambda>args. conditions [] (ObjectValue args)) (arguments_of (selections query) ''mdx'') =
     Some [([''fields'', ''id'', ''eq''], Variable ''id'')]"
proof (intro conjI)
  show "ArticleLayout useNavigate (project (selections query) data) props =
     ArticleLayout useNavigate data props"
    unfolding ArticleLayout_at
    by (cases useNavigate) (simp_all add: at_project query_def cong: if_cong)
qed (simp_all add: query_def)

theorem query_requests_fields_witness:
  "project (selections query) (Obj [(''mdx'', Obj [(''id'', Str ''42''), (''body'', Str ''b'')]), (''allMdx'', Null)]) =
     Obj [(''mdx'', Obj [(''body'', Str ''b'')])] \<and>
   ArticleLayout (Inr ''navigate'') (project (selections query) (sql_views Null))
       \<lparr>location = ''/guides/sql-views'', others = ()\<rparr> =
     ArticleLayout (Inr ''navigate'') (sql_views Null) \<lparr>location = ''/guides/sql-views'', others = ()\<rparr>"
  using query_requests_fields [of "Inr ''navigate''" "sql_views Null"
      "\<lparr>location = ''/guides/sql-views'', others = ()\<rparr>"]
  by (simp add: query_def)

text \<open>
  Claim C9. Where the layout renders, the child of \<open>MDXRenderer\<close> is \<open>mdx.body\<close>
  as read from the query result, unchanged.
\<close>

theorem body_unchanged:
  assumes "truthy data" and "renderable data"
  shows "\<exists>body seo top bottom.
     read data [''mdx'', ''body''] = Inr body \<and>
     ArticleLayout (Inr navigate) data props =
       Inr (Some (Fragment [seo, top, MDXRenderer body, bottom]))"
  using ArticleLayout_reads [OF assms(2), of navigate props]
  by (elim exE conjE) (simp del: read.simps)

theorem body_unchanged_witness:
  "truthy (sql_views Null) \<and> renderable (sql_views Null) \<and>
   (\<exists>seo top bottom.
      ArticleLayout (Inr ''navigate'') (sql_views Null) \<lparr>location = ''/guides/sql-views'', others = ()\<rparr> =
       Inr (Some (Fragment [seo, top, MDXRenderer (Str ''function _createMdxContent() {}''), bottom])))"
proof -
  have p: "truthy (sql_views Null)" "renderable (sql_views Null)"
    using sql_views_present sql_views_renderable by simp_all
  from body_unchanged [OF p, of "''navigate''" "\<lparr>location = ''/guides/sql-views'', others = ()\<rparr>"]
  show ?thesis using p by (auto simp: sql_views_def)
qed

end
